theory Spec2Isabelle
  imports Main "HOL-Library.Sublist" "HOL-Library.Word"
begin

section \<open>Errors and status codes\<close>

text \<open>
  Every way a request of tAPI can fail. \<open>HTTPException n\<close> is the handlers' own
  \<^verbatim>\<open>raise HTTPException(status_code=n)\<close>. \<open>RequestValidationError\<close> is what FastAPI
  raises when a query parameter or a body violates the constraints declared with
  \<^verbatim>\<open>Query(...)\<close> and \<^verbatim>\<open>Field(...)\<close>; the handler is then never called. The others are
  exceptions that no handler catches, so that the request ends with status 500:
  \<^verbatim>\<open>TypeError\<close> from \<^verbatim>\<open>secrets.compare_digest\<close>; \<^verbatim>\<open>ValueError\<close> from the database
  driver, which does not send a text with a NUL character; SQLAlchemy's \<^verbatim>\<open>DataError\<close>
  and \<^verbatim>\<open>IntegrityError\<close> for a statement the engine refuses; and SQLAlchemy's
  \<^verbatim>\<open>InvalidRequestError\<close> when \<^verbatim>\<open>session.refresh\<close> finds no row.
\<close>

datatype error =
    HTTPException nat
  | RequestValidationError
  | TypeError
  | ValueError
  | DataError
  | IntegrityError
  | InvalidRequestError

fun status_code :: "error \<Rightarrow> nat" where
  "status_code (HTTPException n) = n"
| "status_code RequestValidationError = 422"
| "status_code TypeError = 500"
| "status_code ValueError = 500"
| "status_code DataError = 500"
| "status_code IntegrityError = 500"
| "status_code InvalidRequestError = 500"

section \<open>app/core/security.py\<close>

text \<open>
  The header value reaches \<^verbatim>\<open>get_api_key\<close> as \<^verbatim>\<open>Optional[str]\<close>: \<open>None\<close> when the
  request has no \<^verbatim>\<open>X-API-Key\<close> header (\<^verbatim>\<open>auto_error=False\<close>), otherwise the header's
  value, whose characters are the bytes of the header (one \<open>char\<close> each).

  \<open>isspace\<close> lists the code points below 256 that Python's \<^verbatim>\<open>str.strip()\<close> removes.
\<close>

definition isspace :: "char \<Rightarrow> bool" where
  "isspace c = ((of_char c :: nat) \<in> {9, 10, 11, 12, 13, 28, 29, 30, 31, 32, 133, 160})"

definition strip :: "string \<Rightarrow> string" where
  "strip s = dropWhile isspace (rev (dropWhile isspace (rev s)))"

definition isascii :: "string \<Rightarrow> bool" where
  "isascii s = list_all (\<lambda>c. (of_char c :: nat) < 128) s"

text \<open>
  \<^verbatim>\<open>secrets.compare_digest(a, b)\<close> on two \<^verbatim>\<open>str\<close> arguments raises \<^verbatim>\<open>TypeError\<close> unless
  both are ASCII only, and otherwise tells whether they are equal.
\<close>

definition compare_digest :: "string \<Rightarrow> string \<Rightarrow> error + bool" where
  "compare_digest a b = (if isascii a \<and> isascii b then Inr (a = b) else Inl TypeError)"

text \<open>
  \<^verbatim>\<open>settings.API_KEY\<close> comes from \<^verbatim>\<open>app/core/config.py\<close>; it is the first argument here.
  \<^verbatim>\<open>if not api_key\<close> holds for \<open>None\<close> and for the empty string.
\<close>

definition get_api_key :: "string \<Rightarrow> string option \<Rightarrow> error + string" where
  "get_api_key API_KEY api_key =
     (case api_key of
        None \<Rightarrow> Inl (HTTPException 401)
      | Some k \<Rightarrow>
          if k = [] then Inl (HTTPException 401)
          else
            (let k' = strip k in
             case compare_digest k' API_KEY of
               Inl e \<Rightarrow> Inl e
             | Inr same \<Rightarrow> if \<not> same then Inl (HTTPException 403) else Inr k'))"

section \<open>app/models.py\<close>

text \<open>
  A \<^verbatim>\<open>UUID\<close> is a 128-bit value; a \<^verbatim>\<open>datetime\<close> is a point on the UTC time line, here
  the number of microseconds since the epoch (the time zone in which it is written is
  not represented). A \<^verbatim>\<open>str\<close> is a \<open>string\<close>, one \<open>char\<close> for each character: the
  characters represented are those with a code point below 256.
\<close>

type_synonym uuid = "128 word"
type_synonym datetime = int

text \<open>
  The \<^verbatim>\<open>Todo\<close> object of the session, attribute by attribute. \<^verbatim>\<open>id\<close> is written
  \<open>id'\<close>. Python does not check an assignment to an attribute against the annotation
  (\<^verbatim>\<open>setattr(todo, k, v)\<close> in \<^verbatim>\<open>update_todo\<close> can store \<^verbatim>\<open>None\<close> in \<^verbatim>\<open>title\<close>), so \<open>title\<close>
  is optional in the object; the annotation \<^verbatim>\<open>title: str\<close> makes the column NOT NULL,
  which the table enforces when the session commits (see \<open>refused\<close>).
\<close>

record Todo =
  id' :: uuid
  title :: "string option"
  description :: "string option"
  due_at :: "datetime option"
  estimated_minutes :: "int option"
  status :: "string option"
  priority :: "int option"
  tags :: "string list option"
  created_at :: datetime
  updated_at :: "datetime option"

section \<open>app/schemas.py\<close>

text \<open>
  A key of a JSON body is absent, or present with \<^verbatim>\<open>null\<close>, or present with a value of
  the declared type. (A body with a value of another type is rejected by pydantic; such
  bodies are not represented.)
\<close>

datatype 'a field = Absent | Null | Value 'a

text \<open>The body of \<^verbatim>\<open>POST /todos/\<close> as it arrives.\<close>

record create_body =
  b_title :: "string field"
  b_description :: "string field"
  b_due_at :: "datetime field"
  b_estimated_minutes :: "int field"
  b_priority :: "int field"
  b_tags :: "string list field"

text \<open>A validated \<^verbatim>\<open>TodoCreate\<close>.\<close>

record TodoCreate =
  c_title :: string
  c_description :: "string option"
  c_due_at :: "datetime option"
  c_estimated_minutes :: "int option"
  c_priority :: "int option"
  c_tags :: "string list option"

text \<open>
  An \<^verbatim>\<open>Optional\<close> field with a default: the default when the key is absent, \<open>None\<close>
  for \<^verbatim>\<open>null\<close>, the value otherwise.
\<close>

fun optional :: "'a option \<Rightarrow> 'a field \<Rightarrow> 'a option" where
  "optional d Absent = d"
| "optional d Null = None"
| "optional d (Value v) = Some v"

text \<open>The constraints \<^verbatim>\<open>ge\<close> and \<^verbatim>\<open>le\<close> of \<^verbatim>\<open>Field\<close> apply to a value, not to \<^verbatim>\<open>null\<close>.\<close>

fun ge_ok :: "int \<Rightarrow> int field \<Rightarrow> bool" where
  "ge_ok n (Value v) = (n \<le> v)"
| "ge_ok n _ = True"

fun le_ok :: "int \<Rightarrow> int field \<Rightarrow> bool" where
  "le_ok n (Value v) = (v \<le> n)"
| "le_ok n _ = True"

text \<open>
  \<^verbatim>\<open>TodoCreate\<close>: \<^verbatim>\<open>title: str = Field(...)\<close> is required and not nullable, and has no
  length constraint; \<^verbatim>\<open>estimated_minutes\<close> has \<^verbatim>\<open>ge=0\<close>; \<^verbatim>\<open>priority\<close> has default 3,
  \<^verbatim>\<open>ge=1\<close> and \<^verbatim>\<open>le=5\<close>.
\<close>

definition validate_TodoCreate :: "create_body \<Rightarrow> error + TodoCreate" where
  "validate_TodoCreate b =
     (case b_title b of
        Absent \<Rightarrow> Inl RequestValidationError
      | Null \<Rightarrow> Inl RequestValidationError
      | Value t \<Rightarrow>
          if ge_ok 0 (b_estimated_minutes b) \<and> ge_ok 1 (b_priority b) \<and> le_ok 5 (b_priority b)
          then Inr \<lparr>c_title = t,
                    c_description = optional None (b_description b),
                    c_due_at = optional None (b_due_at b),
                    c_estimated_minutes = optional None (b_estimated_minutes b),
                    c_priority = optional (Some 3) (b_priority b),
                    c_tags = optional None (b_tags b)\<rparr>
          else Inl RequestValidationError)"

text \<open>
  \<^verbatim>\<open>TodoUpdate\<close>: every field is \<^verbatim>\<open>Optional\<close> with default \<^verbatim>\<open>None\<close>. pydantic records
  which keys the body had (the fields set), so each field is \<open>Absent\<close> (not set),
  \<open>Null\<close> (set to \<^verbatim>\<open>None\<close>) or a value.
\<close>

record TodoUpdate =
  u_title :: "string field"
  u_description :: "string field"
  u_due_at :: "datetime field"
  u_estimated_minutes :: "int field"
  u_status :: "string field"
  u_priority :: "int field"
  u_tags :: "string list field"

definition validate_TodoUpdate :: "TodoUpdate \<Rightarrow> error + TodoUpdate" where
  "validate_TodoUpdate p =
     (if ge_ok 0 (u_estimated_minutes p) \<and> ge_ok 1 (u_priority p) \<and> le_ok 5 (u_priority p)
      then Inr p else Inl RequestValidationError)"

section \<open>The table behind the session\<close>

text \<open>
  The table \<^verbatim>\<open>todo\<close> is the list of its rows, in the order in which a \<^verbatim>\<open>SELECT\<close> without
  \<^verbatim>\<open>ORDER BY\<close> returns them: the engine writes a new row, and the new version of an
  updated row, after the rows that are there.

  The driver and the engine refuse some rows. The driver raises \<^verbatim>\<open>ValueError\<close> for a
  text with a NUL character (the columns \<^verbatim>\<open>title\<close>, \<^verbatim>\<open>description\<close> and \<^verbatim>\<open>status\<close>; the
  tags are sent as JSON text, in which a NUL character is written as an escape). The
  engine raises an error, which SQLAlchemy reports as \<^verbatim>\<open>DataError\<close>, for an integer
  outside the 32-bit columns \<^verbatim>\<open>estimated_minutes\<close> and \<^verbatim>\<open>priority\<close>, and one reported
  as \<^verbatim>\<open>IntegrityError\<close> for a NULL in the column \<^verbatim>\<open>title\<close>, which \<^verbatim>\<open>title: str\<close> makes
  NOT NULL. A refused statement leaves the table as it was.
\<close>

definition has_nul :: "string option \<Rightarrow> bool" where
  "has_nul col = (case col of None \<Rightarrow> False | Some s \<Rightarrow> CHR 0x00 \<in> set s)"

definition int4 :: "int option \<Rightarrow> bool" where
  "int4 col = (case col of None \<Rightarrow> True | Some v \<Rightarrow> - 2147483648 \<le> v \<and> v \<le> 2147483647)"

definition refused :: "Todo \<Rightarrow> error option" where
  "refused r =
     (if has_nul (title r) \<or> has_nul (description r) \<or> has_nul (status r) then Some ValueError
      else if \<not> int4 (estimated_minutes r) \<or> \<not> int4 (priority r) then Some DataError
      else if title r = None then Some IntegrityError
      else None)"

text \<open>
  An INSERT leaves out the attributes that are \<^verbatim>\<open>None\<close>, and the column then takes its
  default: \<^verbatim>\<open>"todo"\<close> for \<^verbatim>\<open>status\<close> and 3 for \<^verbatim>\<open>priority\<close> (\<^verbatim>\<open>app/models.py\<close>); the
  other optional columns have no default and are NULL. An UPDATE writes \<^verbatim>\<open>None\<close> as
  NULL.
\<close>

definition column_defaults :: "Todo \<Rightarrow> Todo" where
  "column_defaults r =
     r\<lparr>status := (case status r of None \<Rightarrow> Some ''todo'' | Some s \<Rightarrow> Some s),
       priority := (case priority r of None \<Rightarrow> Some 3 | Some p \<Rightarrow> Some p)\<rparr>"

text \<open>
  These are the statements the session issues for the handlers of
  \<^verbatim>\<open>app/api/todos.py\<close>:
  \<^item> \<^verbatim>\<open>session.get(Todo, item_id)\<close> reads the row with that primary key, if any, and
    \<^verbatim>\<open>session.refresh(todo)\<close> reads the row of a loaded object again;
  \<^item> \<^verbatim>\<open>session.add(todo); session.commit()\<close> on a new object inserts a row, which is
    also refused when its primary key is taken;
  \<^item> the same on a loaded object updates the row with its primary key;
  \<^item> \<^verbatim>\<open>session.delete(todo); session.commit()\<close> deletes the rows with its primary key.
\<close>

definition session_get :: "Todo list \<Rightarrow> uuid \<Rightarrow> Todo option" where
  "session_get store item_id = find (\<lambda>r. id' r = item_id) store"

definition session_refresh :: "Todo list \<Rightarrow> Todo \<Rightarrow> error + Todo" where
  "session_refresh store todo =
     (case session_get store (id' todo) of
        None \<Rightarrow> Inl InvalidRequestError
      | Some r \<Rightarrow> Inr r)"

definition insert_row :: "Todo list \<Rightarrow> Todo \<Rightarrow> error + Todo list" where
  "insert_row store todo =
     (let r = column_defaults todo in
      case refused r of
        Some e \<Rightarrow> Inl e
      | None \<Rightarrow>
          if id' r \<in> set (map id' store) then Inl IntegrityError
          else Inr (store @ [r]))"

definition update_row :: "Todo list \<Rightarrow> Todo \<Rightarrow> error + Todo list" where
  "update_row store todo =
     (case refused todo of
        Some e \<Rightarrow> Inl e
      | None \<Rightarrow> Inr (filter (\<lambda>r. id' r \<noteq> id' todo) store @ [todo]))"

definition delete_row :: "Todo list \<Rightarrow> Todo \<Rightarrow> Todo list" where
  "delete_row store todo = filter (\<lambda>r. id' r \<noteq> id' todo) store"

subsection \<open>ILIKE\<close>

text \<open>
  \<open>like_match p s\<close> is SQL's \<^verbatim>\<open>s LIKE p\<close> with the default escape character: in the
  pattern, \<^verbatim>\<open>%\<close> stands for any sequence of characters, \<^verbatim>\<open>_\<close> for any one character, a
  backslash makes the next character stand for itself, and any other character stands
  for itself. (The engine raises an error on a pattern that ends with a lone backslash;
  the patterns of \<open>list_todos\<close> end with \<^verbatim>\<open>%\<close>, and here such a pattern matches nothing.)
\<close>

fun like_match :: "string \<Rightarrow> string \<Rightarrow> bool" where
  "like_match [] s = (s = [])"
| "like_match (c # p) [] = (c = CHR ''%'' \<and> like_match p [])"
| "like_match (c # p) (x # s) =
     (if c = CHR ''%'' then like_match p (x # s) \<or> like_match (c # p) s
      else if c = CHR ''_'' then like_match p s
      else if c = CHR 0x5C then (case p of [] \<Rightarrow> False | e # p' \<Rightarrow> x = e \<and> like_match p' s)
      else x = c \<and> like_match p s)"

text \<open>
  \<^verbatim>\<open>ILIKE\<close> compares without regard to case: the engine puts both sides in lower case
  with the \<^verbatim>\<open>lower\<close> of its locale. For the characters represented here, a locale for
  Unicode text turns the capitals A to Z and the capitals from U+00C0 to U+00DE (all but
  the sign U+00D7) into the letter 32 code points further on, and leaves every other
  character as it is.
\<close>

definition capitals :: string where
  "capitals =
     ''ABCDEFGHIJKLMNOPQRSTUVWXYZ'' @
     [CHR 0xC0, CHR 0xC1, CHR 0xC2, CHR 0xC3, CHR 0xC4, CHR 0xC5, CHR 0xC6, CHR 0xC7,
      CHR 0xC8, CHR 0xC9, CHR 0xCA, CHR 0xCB, CHR 0xCC, CHR 0xCD, CHR 0xCE, CHR 0xCF,
      CHR 0xD0, CHR 0xD1, CHR 0xD2, CHR 0xD3, CHR 0xD4, CHR 0xD5, CHR 0xD6,
      CHR 0xD8, CHR 0xD9, CHR 0xDA, CHR 0xDB, CHR 0xDC, CHR 0xDD, CHR 0xDE]"

definition smalls :: string where
  "smalls =
     ''abcdefghijklmnopqrstuvwxyz'' @
     [CHR 0xE0, CHR 0xE1, CHR 0xE2, CHR 0xE3, CHR 0xE4, CHR 0xE5, CHR 0xE6, CHR 0xE7,
      CHR 0xE8, CHR 0xE9, CHR 0xEA, CHR 0xEB, CHR 0xEC, CHR 0xED, CHR 0xEE, CHR 0xEF,
      CHR 0xF0, CHR 0xF1, CHR 0xF2, CHR 0xF3, CHR 0xF4, CHR 0xF5, CHR 0xF6,
      CHR 0xF8, CHR 0xF9, CHR 0xFA, CHR 0xFB, CHR 0xFC, CHR 0xFD, CHR 0xFE]"

definition to_lower :: "char \<Rightarrow> char" where
  "to_lower c = (case map_of (zip capitals smalls) c of Some l \<Rightarrow> l | None \<Rightarrow> c)"

definition lower :: "string \<Rightarrow> string" where
  "lower s = map to_lower s"

text \<open>A comparison with a NULL column is not true, so the row is not selected.\<close>

definition ilike :: "string option \<Rightarrow> string \<Rightarrow> bool" where
  "ilike col pat = (case col of None \<Rightarrow> False | Some s \<Rightarrow> like_match (lower pat) (lower s))"

text \<open>
  \<^verbatim>\<open>cast(Todo.tags, JSONB).op('@>')(func.jsonb_build_array(tag))\<close>: the JSON array in the
  column contains the string \<^verbatim>\<open>tag\<close>. The cast to JSONB fails, with an error reported as
  \<^verbatim>\<open>DataError\<close>, on a JSON text that has the escape of the NUL character.
\<close>

definition jsonb_castable :: "string list option \<Rightarrow> bool" where
  "jsonb_castable col =
     (case col of None \<Rightarrow> True | Some ts \<Rightarrow> list_all (\<lambda>t. CHR 0x00 \<notin> set t) ts)"

definition jsonb_contains :: "string list option \<Rightarrow> string \<Rightarrow> bool" where
  "jsonb_contains col tag = (case col of None \<Rightarrow> False | Some ts \<Rightarrow> tag \<in> set ts)"

definition column_eq :: "string option \<Rightarrow> string \<Rightarrow> bool" where
  "column_eq col v = (col = Some v)"

section \<open>app/api/todos.py\<close>

text \<open>
  A handler that writes takes the table and returns the table after the request together
  with its result. \<^verbatim>\<open>uuid4()\<close> and \<^verbatim>\<open>datetime.now(timezone.utc)\<close> are read from the
  environment; the values they return are arguments (\<open>new_id\<close>, \<open>now\<close>).
\<close>

definition new_Todo :: "TodoCreate \<Rightarrow> uuid \<Rightarrow> datetime \<Rightarrow> Todo" where
  "new_Todo item new_id now =
     \<lparr>id' = new_id,
      title = Some (c_title item),
      description = c_description item,
      due_at = c_due_at item,
      estimated_minutes = c_estimated_minutes item,
      status = Some ''todo'',
      priority = c_priority item,
      tags = c_tags item,
      created_at = now,
      updated_at = None\<rparr>"

definition create_todo ::
  "Todo list \<Rightarrow> TodoCreate \<Rightarrow> uuid \<Rightarrow> datetime \<Rightarrow> Todo list \<times> (error + Todo)" where
  "create_todo store item new_id now =
     (let todo = new_Todo item new_id now in
      case insert_row store todo of
        Inl e \<Rightarrow> (store, Inl e)
      | Inr store' \<Rightarrow> (store', session_refresh store' todo))"

text \<open>
  \<^verbatim>\<open>if q:\<close> is false for \<^verbatim>\<open>None\<close> and for the empty string, and so for \<^verbatim>\<open>tag\<close> and
  \<^verbatim>\<open>status\<close>.
\<close>

definition where_q :: "string option \<Rightarrow> Todo \<Rightarrow> bool" where
  "where_q q r =
     (case q of None \<Rightarrow> True
      | Some s \<Rightarrow> if s = [] then True else ilike (title r) (''%'' @ s @ ''%''))"

definition where_tag :: "string option \<Rightarrow> Todo \<Rightarrow> bool" where
  "where_tag tag r =
     (case tag of None \<Rightarrow> True
      | Some s \<Rightarrow> if s = [] then True else jsonb_contains (tags r) s)"

definition where_status :: "string option \<Rightarrow> Todo \<Rightarrow> bool" where
  "where_status st r =
     (case st of None \<Rightarrow> True
      | Some s \<Rightarrow> if s = [] then True else column_eq (status r) s)"

text \<open>
  The statement is executed with \<^verbatim>\<open>q\<close>, \<^verbatim>\<open>tag\<close> and \<^verbatim>\<open>status\<close> as parameters (those
  that were applied), which the driver refuses when they have a NUL character.
  \<^verbatim>\<open>statement.limit(limit)\<close>: the engine returns the first \<^verbatim>\<open>limit\<close> selected rows, and
  refuses a \<^verbatim>\<open>LIMIT\<close> that is negative or outside 64 bits. With a tag filter the engine casts the tags of the rows
  it looks at; here the statement fails when the table has a row whose tags cannot be
  cast (the engine may stop before it reaches that row, which is not represented).
\<close>

definition list_todos ::
  "Todo list \<Rightarrow> string option \<Rightarrow> string option \<Rightarrow> string option \<Rightarrow> int \<Rightarrow> error + Todo list" where
  "list_todos store q tag st limit =
     (let rows = filter (where_q q) store;
          rows = filter (where_tag tag) rows;
          rows = filter (where_status st) rows
      in if has_nul q \<or> has_nul tag \<or> has_nul st then Inl ValueError
         else if limit < 0 \<or> 9223372036854775807 < limit then Inl DataError
         else if tag \<noteq> None \<and> tag \<noteq> Some [] \<and> \<not> list_all (\<lambda>r. jsonb_castable (tags r)) store
           then Inl DataError
         else Inr (take (nat limit) rows))"

definition get_todo :: "Todo list \<Rightarrow> uuid \<Rightarrow> error + Todo" where
  "get_todo store item_id =
     (case session_get store item_id of
        None \<Rightarrow> Inl (HTTPException 404)
      | Some todo \<Rightarrow> Inr todo)"

text \<open>
  \<^verbatim>\<open>patch.model_dump(exclude_unset=True)\<close> holds the fields that were set, and the loop
  assigns each of them: a field that was not set keeps the attribute's value.
\<close>

fun setattr :: "'a field \<Rightarrow> 'a option \<Rightarrow> 'a option" where
  "setattr Absent old = old"
| "setattr Null old = None"
| "setattr (Value v) old = Some v"

definition setattrs :: "TodoUpdate \<Rightarrow> Todo \<Rightarrow> Todo" where
  "setattrs patch todo =
     todo\<lparr>title := setattr (u_title patch) (title todo),
          description := setattr (u_description patch) (description todo),
          due_at := setattr (u_due_at patch) (due_at todo),
          estimated_minutes := setattr (u_estimated_minutes patch) (estimated_minutes todo),
          status := setattr (u_status patch) (status todo),
          priority := setattr (u_priority patch) (priority todo),
          tags := setattr (u_tags patch) (tags todo)\<rparr>"

definition update_todo ::
  "Todo list \<Rightarrow> uuid \<Rightarrow> TodoUpdate \<Rightarrow> datetime \<Rightarrow> Todo list \<times> (error + Todo)" where
  "update_todo store item_id patch now =
     (case session_get store item_id of
        None \<Rightarrow> (store, Inl (HTTPException 404))
      | Some todo \<Rightarrow>
          (let todo' = (setattrs patch todo)\<lparr>updated_at := Some now\<rparr> in
           case update_row store todo' of
             Inl e \<Rightarrow> (store, Inl e)
           | Inr store' \<Rightarrow> (store', session_refresh store' todo')))"

definition delete_todo :: "Todo list \<Rightarrow> uuid \<Rightarrow> Todo list \<times> (error + unit)" where
  "delete_todo store item_id =
     (case session_get store item_id of
        None \<Rightarrow> (store, Inl (HTTPException 404))
      | Some todo \<Rightarrow> (delete_row store todo, Inr ()))"

subsection \<open>The routes: validation, then the handler\<close>

text \<open>
  FastAPI validates the query parameters and the body before it calls the handler.
  \<^verbatim>\<open>limit: int = Query(100, le=1000)\<close>: 100 when the parameter is absent, and a value
  above 1000 is rejected.

  Every route also depends on \<open>get_api_key\<close>, which runs first and is stated on its own
  above. A route returns what its handler returns: the serialisation of the result
  through \<^verbatim>\<open>response_model=TodoRead\<close> is not part of these definitions.
\<close>

definition Query_limit :: "int option \<Rightarrow> error + int" where
  "Query_limit limit =
     (case limit of
        None \<Rightarrow> Inr 100
      | Some n \<Rightarrow> if n \<le> 1000 then Inr n else Inl RequestValidationError)"

definition GET_todos ::
  "Todo list \<Rightarrow> string option \<Rightarrow> string option \<Rightarrow> string option \<Rightarrow> int option
     \<Rightarrow> error + Todo list" where
  "GET_todos store q tag st limit =
     (case Query_limit limit of
        Inl e \<Rightarrow> Inl e
      | Inr n \<Rightarrow> list_todos store q tag st n)"

definition POST_todos ::
  "Todo list \<Rightarrow> create_body \<Rightarrow> uuid \<Rightarrow> datetime \<Rightarrow> Todo list \<times> (error + Todo)" where
  "POST_todos store body new_id now =
     (case validate_TodoCreate body of
        Inl e \<Rightarrow> (store, Inl e)
      | Inr item \<Rightarrow> create_todo store item new_id now)"

definition PATCH_todos ::
  "Todo list \<Rightarrow> uuid \<Rightarrow> TodoUpdate \<Rightarrow> datetime \<Rightarrow> Todo list \<times> (error + Todo)" where
  "PATCH_todos store item_id body now =
     (case validate_TodoUpdate body of
        Inl e \<Rightarrow> (store, Inl e)
      | Inr patch \<Rightarrow> update_todo store item_id patch now)"

section \<open>Predicates of the specification\<close>

text \<open>
  A table that the engine can hold: none of its rows would be refused. It holds of the
  empty table, and \<open>create_todo\<close>, \<open>update_todo\<close> and \<open>delete_todo\<close> keep it.
\<close>

definition valid_table :: "Todo list \<Rightarrow> bool" where
  "valid_table store = list_all (\<lambda>r. refused r = None) store"

text \<open>
  What the driver and the engine take of a payload: no text value with a NUL character
  (the tags included) and no integer value outside 32 bits.
\<close>

definition text_ok :: "string field \<Rightarrow> bool" where
  "text_ok f = (case f of Value s \<Rightarrow> CHR 0x00 \<notin> set s | _ \<Rightarrow> True)"

definition tags_ok :: "string list field \<Rightarrow> bool" where
  "tags_ok f = (case f of Value ts \<Rightarrow> list_all (\<lambda>t. CHR 0x00 \<notin> set t) ts | _ \<Rightarrow> True)"

definition int4_ok :: "int field \<Rightarrow> bool" where
  "int4_ok f = (case f of Value v \<Rightarrow> - 2147483648 \<le> v \<and> v \<le> 2147483647 | _ \<Rightarrow> True)"

definition storable_body :: "create_body \<Rightarrow> bool" where
  "storable_body b =
     (text_ok (b_title b) \<and> text_ok (b_description b) \<and> tags_ok (b_tags b)
      \<and> int4_ok (b_estimated_minutes b) \<and> int4_ok (b_priority b))"

definition storable_patch :: "TodoUpdate \<Rightarrow> bool" where
  "storable_patch p =
     (text_ok (u_title p) \<and> text_ok (u_description p) \<and> text_ok (u_status p)
      \<and> tags_ok (u_tags p) \<and> int4_ok (u_estimated_minutes p) \<and> int4_ok (u_priority p))"

text \<open>
  What a partial update promises of one field: a key that is absent leaves the value, a
  key with \<^verbatim>\<open>null\<close> clears it, a key with a value sets it.
\<close>

definition merged :: "'a field \<Rightarrow> 'a option \<Rightarrow> 'a option \<Rightarrow> bool" where
  "merged f old new =
     (case f of Absent \<Rightarrow> new = old | Null \<Rightarrow> new = None | Value v \<Rightarrow> new = Some v)"

text \<open>
  Case-insensitive substring match, in the words of the specification and without
  reference to lower case: two characters are the same letter when they are equal or one
  is the capital of the other, and the text filter matches a title when it occurs in the
  title as a run of consecutive characters, each the same letter as its counterpart.
\<close>

definition same_letter :: "char \<Rightarrow> char \<Rightarrow> bool" where
  "same_letter a b =
     (a = b \<or> (a, b) \<in> set (zip capitals smalls) \<or> (b, a) \<in> set (zip capitals smalls))"

fun starts_with :: "string \<Rightarrow> string \<Rightarrow> bool" where
  "starts_with t [] = True"
| "starts_with [] (a # s) = False"
| "starts_with (b # t) (a # s) = (same_letter a b \<and> starts_with t s)"

fun occurs_in :: "string \<Rightarrow> string \<Rightarrow> bool" where
  "occurs_in s [] = (s = [])"
| "occurs_in s (b # t) = (starts_with (b # t) s \<or> occurs_in s t)"

text \<open>
  The filters of \<^verbatim>\<open>List(filters, limit)\<close>: the text filter is a case-insensitive
  substring match against the title, the tag filter is membership in the list of tags,
  the status filter is equality. A filter that is absent or empty does not constrain.
\<close>

definition text_filter :: "string option \<Rightarrow> Todo \<Rightarrow> bool" where
  "text_filter q r =
     (case q of None \<Rightarrow> True
      | Some s \<Rightarrow> s = [] \<or> (case title r of None \<Rightarrow> False | Some t \<Rightarrow> occurs_in s t))"

definition tag_filter :: "string option \<Rightarrow> Todo \<Rightarrow> bool" where
  "tag_filter tag r =
     (case tag of None \<Rightarrow> True
      | Some s \<Rightarrow> s = [] \<or> (case tags r of None \<Rightarrow> False | Some ts \<Rightarrow> s \<in> set ts))"

definition status_filter :: "string option \<Rightarrow> Todo \<Rightarrow> bool" where
  "status_filter st r = (case st of None \<Rightarrow> True | Some s \<Rightarrow> s = [] \<or> status r = Some s)"

text \<open>The characters that \<^verbatim>\<open>LIKE\<close> does not take for themselves.\<close>

definition wildcard :: "char \<Rightarrow> bool" where
  "wildcard c = (c = CHR ''%'' \<or> c = CHR ''_'' \<or> c = CHR 0x5C)"

definition no_wildcards :: "string option \<Rightarrow> bool" where
  "no_wildcards q = (case q of None \<Rightarrow> True | Some s \<Rightarrow> list_all (\<lambda>c. \<not> wildcard c) s)"

text \<open>
  A list request that the driver and the engine answer: no filter has a NUL character,
  and when a tag filter is applied no tag in the table has one.
\<close>

definition nul_free :: "Todo list \<Rightarrow> string option \<Rightarrow> string option \<Rightarrow> string option \<Rightarrow> bool" where
  "nul_free store q tag st =
     (\<not> has_nul q \<and> \<not> has_nul tag \<and> \<not> has_nul st
      \<and> (tag = None \<or> tag = Some [] \<or> list_all (\<lambda>r. jsonb_castable (tags r)) store))"

section \<open>Example data\<close>

definition example_todo :: "uuid \<Rightarrow> string \<Rightarrow> string list \<Rightarrow> string \<Rightarrow> Todo" where
  "example_todo i t ts s =
     \<lparr>id' = i, title = Some t, description = None, due_at = None, estimated_minutes = None,
      status = Some s, priority = Some 3, tags = Some ts, created_at = 0, updated_at = None\<rparr>"

definition no_keys :: create_body where
  "no_keys = \<lparr>b_title = Absent, b_description = Absent, b_due_at = Absent,
              b_estimated_minutes = Absent, b_priority = Absent, b_tags = Absent\<rparr>"

definition example_body :: create_body where
  "example_body =
     \<lparr>b_title = Value ''Buy milk'', b_description = Null, b_due_at = Value 1700000000,
      b_estimated_minutes = Value 15, b_priority = Null, b_tags = Value [''home'']\<rparr>"

definition no_fields :: TodoUpdate where
  "no_fields = \<lparr>u_title = Absent, u_description = Absent, u_due_at = Absent,
                u_estimated_minutes = Absent, u_status = Absent, u_priority = Absent,
                u_tags = Absent\<rparr>"

section \<open>Lemmas on the table\<close>

lemma session_get_None: "session_get store i = None \<longleftrightarrow> i \<notin> id' ` set store"
  by (auto simp: session_get_def find_None_iff)

lemma session_get_Some: "session_get store i = Some t \<Longrightarrow> t \<in> set store \<and> id' t = i"
  by (auto simp: session_get_def find_Some_iff)

lemma session_get_delete_row: "session_get (delete_row store t) (id' t) = None"
  by (auto simp: session_get_None delete_row_def)

lemma session_get_append_fresh:
  "i \<notin> id' ` set store \<Longrightarrow> id' t = i \<Longrightarrow> session_get (store @ [t]) i = Some t"
  by (induction store) (auto simp: session_get_def)

lemma session_get_moved:
  "session_get (filter (\<lambda>r. id' r \<noteq> id' t') store @ [t']) j
     = (if j = id' t' then Some t' else session_get store j)"
  by (induction store) (auto simp: session_get_def)

lemma valid_table_refused: "valid_table store \<Longrightarrow> t \<in> set store \<Longrightarrow> refused t = None"
  by (auto simp: valid_table_def list_all_iff)

lemma valid_table_insert_row:
  "valid_table store \<Longrightarrow> insert_row store t = Inr store' \<Longrightarrow> valid_table store'"
  by (auto simp: insert_row_def valid_table_def Let_def split: option.splits if_splits)

lemma valid_table_update_row:
  "valid_table store \<Longrightarrow> update_row store t = Inr store' \<Longrightarrow> valid_table store'"
  by (auto simp: update_row_def valid_table_def list_all_iff split: option.splits)

lemma valid_table_delete_row: "valid_table store \<Longrightarrow> valid_table (delete_row store t)"
  by (auto simp: delete_row_def valid_table_def list_all_iff)

lemma valid_table_create_todo:
  "valid_table store \<Longrightarrow> create_todo store item new_id now = (store', r) \<Longrightarrow> valid_table store'"
  by (auto simp: create_todo_def Let_def split: sum.splits dest: valid_table_insert_row)

lemma valid_table_update_todo:
  "valid_table store \<Longrightarrow> update_todo store i p now = (store', r) \<Longrightarrow> valid_table store'"
  by (auto simp: update_todo_def Let_def split: option.splits sum.splits
      dest: valid_table_update_row)

lemma valid_table_delete_todo:
  "valid_table store \<Longrightarrow> delete_todo store i = (store', r) \<Longrightarrow> valid_table store'"
  by (auto simp: delete_todo_def split: option.splits intro: valid_table_delete_row)

section \<open>Properties of the credential validator\<close>

text \<open>
  C5, as stated, fails: a header that is present but empty is answered with 401, not 403,
  although the secret is present and, stripped, differs from the configured one.
\<close>

theorem get_api_key_counterexample:
  "get_api_key ''s3cret'' (Some '''') = Inl (HTTPException 401)
   \<and> get_api_key ''s3cret'' (Some '''') \<noteq> Inl (HTTPException 403)
   \<and> strip '''' \<noteq> ''s3cret''"
  by (simp add: get_api_key_def strip_def)

text \<open>
  C5, amended: the validator fails with 401 if and only if the secret is absent or empty.
  For a secret that is present, not empty and ASCII after stripping, and an ASCII
  configured secret, it fails with 403 if and only if the stripped secret differs from
  the configured one, and otherwise authorizes the request, returning the stripped
  secret.
\<close>

theorem get_api_key_outcomes:
  "(get_api_key API_KEY api_key = Inl (HTTPException 401) \<longleftrightarrow> api_key = None \<or> api_key = Some [])
   \<and> (\<forall>k. api_key = Some k \<and> k \<noteq> [] \<and> isascii (strip k) \<and> isascii API_KEY \<longrightarrow>
         (get_api_key API_KEY api_key = Inl (HTTPException 403) \<longleftrightarrow> strip k \<noteq> API_KEY)
         \<and> (get_api_key API_KEY api_key = Inr (strip k) \<longleftrightarrow> strip k = API_KEY))"
  by (auto simp: get_api_key_def compare_digest_def Let_def split: option.splits sum.splits if_splits)

text \<open>C5, amended, on an absent secret, a matching secret with spaces and a wrong one.\<close>

theorem get_api_key_outcomes_witness:
  "get_api_key ''s3cret'' None = Inl (HTTPException 401)
   \<and> get_api_key ''s3cret'' (Some '' s3cret '') = Inr ''s3cret''
   \<and> get_api_key ''s3cret'' (Some ''s3cres'') = Inl (HTTPException 403)"
  using get_api_key_outcomes [of "''s3cret''" None]
    get_api_key_outcomes [of "''s3cret''" "Some '' s3cret ''"]
    get_api_key_outcomes [of "''s3cret''" "Some ''s3cres''"]
  by (simp add: isascii_def strip_def isspace_def)

text \<open>
  A secret with a character outside ASCII reaches \<^verbatim>\<open>compare_digest\<close> and makes it raise.
\<close>

lemma get_api_key_non_ascii:
  "get_api_key ''s3cret'' (Some [CHR 0xE9]) = Inl TypeError \<and> status_code TypeError = 500"
  by (simp add: get_api_key_def compare_digest_def isascii_def strip_def isspace_def)

section \<open>Properties of the list operation\<close>

text \<open>
  C1, as stated, fails: a request with \<^verbatim>\<open>limit=5000\<close> is rejected with status 422 for
  the size of the limit alone (the same request with \<^verbatim>\<open>limit=1000\<close> succeeds).
\<close>

theorem limit_above_ceiling_counterexample:
  "GET_todos [] None None None (Some 5000) = Inl RequestValidationError
   \<and> status_code RequestValidationError = 422
   \<and> GET_todos [] None None None (Some 1000) = Inr []"
  by (simp add: GET_todos_def Query_limit_def list_todos_def has_nul_def)

text \<open>A filter with a NUL character does not reach the engine.\<close>

lemma list_todos_nul:
  "list_todos [] (Some [CHR 0x00]) None None 10 = Inl ValueError
   \<and> status_code ValueError = 500"
  by (simp add: list_todos_def has_nul_def)

text \<open>
  C1, amended: a list request with a limit above 1000 is rejected with a validation error
  (status 422), and no request with a limit of at most 1000 is; a request with a limit
  from 0 to 1000 that the driver and the engine answer (no NUL character in a filter
  nor, under a tag filter, in a stored tag) succeeds and returns at most that many
  items, hence at most 1000; such a request without a limit succeeds and returns at most
  100 items.
\<close>

theorem GET_todos_limit:
  "(1000 < n \<longrightarrow> GET_todos store q tag st (Some n) = Inl RequestValidationError)
   \<and> (n \<le> 1000 \<longrightarrow> GET_todos store q tag st (Some n) \<noteq> Inl RequestValidationError)
   \<and> (0 \<le> n \<and> n \<le> 1000 \<and> nul_free store q tag st \<longrightarrow>
        (\<exists>rows. GET_todos store q tag st (Some n) = Inr rows
                \<and> int (length rows) \<le> n \<and> length rows \<le> 1000))
   \<and> (nul_free store q tag st \<longrightarrow>
        (\<exists>rows. GET_todos store q tag st None = Inr rows \<and> length rows \<le> 100))"
  by (auto simp: GET_todos_def Query_limit_def list_todos_def nul_free_def Let_def)

text \<open>C1, amended, on a table of two rows with limits 5000 and 1.\<close>

theorem GET_todos_limit_witness:
  "GET_todos [example_todo 1 ''a'' [] ''todo'', example_todo 2 ''b'' [] ''todo'']
       None None None (Some 5000)
     = Inl RequestValidationError
   \<and> (\<exists>rows. GET_todos [example_todo 1 ''a'' [] ''todo'', example_todo 2 ''b'' [] ''todo'']
                 None None None (Some 1) = Inr rows
               \<and> int (length rows) \<le> 1 \<and> length rows \<le> 1000)
   \<and> (\<exists>rows. GET_todos [example_todo 1 ''a'' [] ''todo'', example_todo 2 ''b'' [] ''todo'']
                 None None None None = Inr rows
               \<and> length rows \<le> 100)"
proof -
  have n: "nul_free [example_todo 1 ''a'' [] ''todo'', example_todo 2 ''b'' [] ''todo'']
             None None None"
    by (simp add: nul_free_def has_nul_def)
  show ?thesis
    using n GET_todos_limit [of 5000
        "[example_todo 1 ''a'' [] ''todo'', example_todo 2 ''b'' [] ''todo'']" None None None]
      GET_todos_limit [of 1
        "[example_todo 1 ''a'' [] ''todo'', example_todo 2 ''b'' [] ''todo'']" None None None]
    by simp
qed

subsection \<open>ILIKE on a pattern without wildcards is a case-insensitive substring match\<close>

lemma capitals_smalls:
  "distinct capitals" "distinct smalls" "length capitals = length smalls"
  "set capitals \<inter> set smalls = {}"
  by (simp_all add: capitals_def smalls_def)

lemma zip_functional:
  "distinct xs \<Longrightarrow> (a, l) \<in> set (zip xs ys) \<Longrightarrow> (a, l') \<in> set (zip xs ys) \<Longrightarrow> l = l'"
  by (induction xs ys rule: list_induct2') (auto dest: set_zip_leftD)

lemma zip_injective:
  "distinct ys \<Longrightarrow> (a, l) \<in> set (zip xs ys) \<Longrightarrow> (b, l) \<in> set (zip xs ys) \<Longrightarrow> a = b"
  by (induction xs ys rule: list_induct2') (auto dest: set_zip_rightD)

lemma map_of_zip_Some:
  "distinct xs \<Longrightarrow> map_of (zip xs ys) a = Some l \<longleftrightarrow> (a, l) \<in> set (zip xs ys)"
  by (induction xs ys rule: list_induct2') (auto dest: set_zip_leftD)

lemma map_of_zip_None:
  "length xs = length ys \<Longrightarrow> map_of (zip xs ys) a = None \<longleftrightarrow> a \<notin> set xs"
  by (induction xs ys rule: list_induct2) auto

text \<open>
  Folding with a table of pairs whose two sides are distinct and apart identifies two
  characters exactly when they are equal or paired.
\<close>

lemma fold_eq_iff:
  assumes "distinct xs" "distinct ys" "length xs = length ys" "set xs \<inter> set ys = {}"
  shows "(case map_of (zip xs ys) a of Some l \<Rightarrow> l | None \<Rightarrow> a)
           = (case map_of (zip xs ys) b of Some l \<Rightarrow> l | None \<Rightarrow> b)
         \<longleftrightarrow> a = b \<or> (a, b) \<in> set (zip xs ys) \<or> (b, a) \<in> set (zip xs ys)"
proof (cases "map_of (zip xs ys) a")
  case None
  note na = None
  then have a: "a \<notin> set xs" using assms(3) by (simp add: map_of_zip_None)
  show ?thesis
  proof (cases "map_of (zip xs ys) b")
    case None
    then have "b \<notin> set xs" using assms(3) by (simp add: map_of_zip_None)
    with a na None show ?thesis by (auto dest: set_zip_leftD)
  next
    case (Some lb)
    then have m: "(b, lb) \<in> set (zip xs ys)" using assms(1) by (simp add: map_of_zip_Some)
    then have "b \<in> set xs" by (rule set_zip_leftD)
    with a na Some m assms(1) show ?thesis
      by (auto dest: set_zip_leftD zip_functional)
  qed
next
  case (Some la)
  note sa = Some
  then have ma: "(a, la) \<in> set (zip xs ys)" using assms(1) by (simp add: map_of_zip_Some)
  then have a: "a \<in> set xs" by (rule set_zip_leftD)
  show ?thesis
  proof (cases "map_of (zip xs ys) b")
    case None
    then have "b \<notin> set xs" using assms(3) by (simp add: map_of_zip_None)
    with a sa None ma assms(1) show ?thesis
      by (auto dest: set_zip_leftD zip_functional)
  next
    case (Some lb)
    then have mb: "(b, lb) \<in> set (zip xs ys)" using assms(1) by (simp add: map_of_zip_Some)
    then have b: "b \<in> set xs" by (rule set_zip_leftD)
    have "\<not> (a, b) \<in> set (zip xs ys)" "\<not> (b, a) \<in> set (zip xs ys)"
      using a b assms(4) by (auto dest: set_zip_rightD)
    moreover have "la = lb \<longleftrightarrow> a = b"
      using ma mb assms(1,2) by (auto dest: zip_injective zip_functional)
    ultimately show ?thesis using sa Some by simp
  qed
qed

lemma to_lower_eq_iff: "to_lower a = to_lower b \<longleftrightarrow> same_letter a b"
  unfolding to_lower_def same_letter_def
  by (rule fold_eq_iff) (rule capitals_smalls)+

lemma starts_with_prefix: "starts_with t s \<longleftrightarrow> prefix (lower s) (lower t)"
  by (induction t s rule: starts_with.induct) (simp_all add: lower_def to_lower_eq_iff)

lemma occurs_in_sublist: "occurs_in s t \<longleftrightarrow> sublist (lower s) (lower t)"
proof (induction t)
  case Nil
  then show ?case by (simp add: lower_def)
next
  case (Cons b t)
  have "sublist (lower s) (lower (b # t))
          \<longleftrightarrow> prefix (lower s) (lower (b # t)) \<or> sublist (lower s) (lower t)"
    by (simp add: lower_def sublist_Cons_right)
  with Cons show ?case by (simp add: starts_with_prefix)
qed

lemma to_lower_wildcard: "wildcard (to_lower c) = wildcard c"
proof (cases "map_of (zip capitals smalls) c")
  case None
  then show ?thesis by (simp add: to_lower_def)
next
  case (Some l)
  then have "(c, l) \<in> set (zip capitals smalls)"
    by (rule map_of_SomeD)
  then have "c \<in> set capitals" and "l \<in> set smalls"
    by (auto dest: set_zip_leftD set_zip_rightD)
  then have "\<not> wildcard c" and "\<not> wildcard l"
    by (auto simp: wildcard_def capitals_def smalls_def)
  with Some show ?thesis by (simp add: to_lower_def)
qed

lemma like_match_percent: "like_match ''%'' s"
  by (induction s) auto

lemma like_match_prefix:
  "\<forall>c\<in>set p. \<not> wildcard c \<Longrightarrow> like_match (p @ ''%'') s \<longleftrightarrow> prefix p s"
proof (induction p arbitrary: s)
  case Nil
  then show ?case by (simp add: like_match_percent)
next
  case (Cons c p)
  then show ?case by (cases s) (auto simp: wildcard_def)
qed

lemma like_match_sublist:
  "\<forall>c\<in>set p. \<not> wildcard c \<Longrightarrow> like_match (CHR ''%'' # p @ ''%'') s \<longleftrightarrow> sublist p s"
proof (induction s)
  case Nil
  then show ?case using like_match_prefix [of p "[]"] by auto
next
  case (Cons x s)
  then show ?case using like_match_prefix [of p "x # s"] by (simp add: sublist_Cons_right)
qed

lemma lower_pattern: "lower (''%'' @ s @ ''%'') = CHR ''%'' # lower s @ ''%''"
proof -
  have "to_lower (CHR ''%'') = CHR ''%''"
    by (simp add: to_lower_def capitals_def smalls_def)
  then show ?thesis by (simp add: lower_def)
qed

lemma ilike_occurs_in:
  assumes "list_all (\<lambda>c. \<not> wildcard c) s"
  shows "ilike (Some t) (''%'' @ s @ ''%'') \<longleftrightarrow> occurs_in s t"
proof -
  have "\<forall>c\<in>set (lower s). \<not> wildcard c"
    using assms by (simp add: lower_def list_all_iff to_lower_wildcard)
  then have "like_match (CHR ''%'' # lower s @ ''%'') (lower t) \<longleftrightarrow> sublist (lower s) (lower t)"
    by (rule like_match_sublist)
  then show ?thesis
    by (simp only: ilike_def option.case lower_pattern occurs_in_sublist)
qed

lemma where_q_text_filter: "no_wildcards q \<Longrightarrow> where_q q r = text_filter q r"
proof (cases q)
  case None
  then show ?thesis by (simp add: where_q_def text_filter_def)
next
  case (Some s)
  assume "no_wildcards q"
  with Some have nw: "list_all (\<lambda>c. \<not> wildcard c) s" by (simp add: no_wildcards_def)
  show ?thesis
  proof (cases "title r")
    case None
    with Some show ?thesis by (simp add: where_q_def text_filter_def ilike_def)
  next
    case (Some t)
    with \<open>q = Some s\<close> ilike_occurs_in [OF nw, of t] show ?thesis
      by (simp add: where_q_def text_filter_def)
  qed
qed

lemma where_tag_tag_filter: "where_tag tag r = tag_filter tag r"
  by (auto simp: where_tag_def tag_filter_def jsonb_contains_def split: option.splits)

lemma where_status_status_filter: "where_status st r = status_filter st r"
  by (auto simp: where_status_def status_filter_def column_eq_def split: option.splits)

text \<open>
  C7, as stated, fails: a tag filter that is supplied as the empty string selects a row
  whose tags do not contain the empty string.
\<close>

theorem list_todos_counterexample:
  "list_todos [example_todo 1 ''Buy milk'' [''home''] ''todo''] None (Some '''') None 100
     = Inr [example_todo 1 ''Buy milk'' [''home''] ''todo'']
   \<and> tags (example_todo 1 ''Buy milk'' [''home''] ''todo'') = Some [''home'']
   \<and> '''' \<notin> set [''home'']"
  by (simp add: list_todos_def where_q_def where_tag_def where_status_def has_nul_def
      example_todo_def)

text \<open>
  C7, amended: for every table, every limit from 0 to 1000 and every combination of
  filters that the driver and the engine answer (no NUL character in a filter nor, under
  a tag filter, in a stored tag) and whose text filter has no \<^verbatim>\<open>%\<close>, \<^verbatim>\<open>_\<close> or
  backslash, the list operation succeeds and returns, in the order of the table, the
  first \<open>limit\<close> of exactly the stored records that satisfy all filters together:
  case-insensitive substring match of the text filter against the title (the capitals
  A to Z and U+00C0 to U+00DE are the same letters as their small letters), membership of
  the tag filter in the tags, equality of the status filter with the status, where a
  filter that is absent or the empty string does not constrain. An empty result is a
  success.
\<close>

theorem list_todos_filters:
  assumes "0 \<le> limit" and "limit \<le> 1000" and "no_wildcards q"
    and "nul_free store q tag st"
  shows "list_todos store q tag st limit =
           Inr (take (nat limit)
                 (filter (\<lambda>r. text_filter q r \<and> tag_filter tag r \<and> status_filter st r) store))"
proof -
  have "filter (where_status st) (filter (where_tag tag) (filter (where_q q) store))
          = filter (\<lambda>r. text_filter q r \<and> tag_filter tag r \<and> status_filter st r) store"
    using assms(3)
    by (simp add: where_q_text_filter where_tag_tag_filter where_status_status_filter conj_ac
        cong: filter_cong)
  with assms(1,2,4) show ?thesis
    by (auto simp: list_todos_def nul_free_def Let_def)
qed

text \<open>
  C7, amended, on the example of the specification: of the rows Buy milk (tag home) and
  Buy bread (tag work), the query \<^verbatim>\<open>q=buy&tag=home\<close> returns only the first; and a
  capital E with acute accent as text filter finds a title that begins with the small
  letter.
\<close>

theorem list_todos_filters_witness:
  "list_todos [example_todo 1 ''Buy milk'' [''home''] ''todo'',
               example_todo 2 ''Buy bread'' [''work''] ''done'']
       (Some ''buy'') (Some ''home'') None 100
     = Inr [example_todo 1 ''Buy milk'' [''home''] ''todo'']
   \<and> list_todos [example_todo 1 (CHR 0xE9 # ''cole'') [] ''todo''] (Some [CHR 0xC9]) None None 100
     = Inr [example_todo 1 (CHR 0xE9 # ''cole'') [] ''todo'']"
proof -
  have n: "no_wildcards (Some ''buy'')" "no_wildcards (Some [CHR 0xC9])"
    by (simp_all add: no_wildcards_def wildcard_def)
  have f: "nul_free [example_todo 1 ''Buy milk'' [''home''] ''todo'',
                     example_todo 2 ''Buy bread'' [''work''] ''done'']
             (Some ''buy'') (Some ''home'') None"
    "nul_free [example_todo 1 (CHR 0xE9 # ''cole'') [] ''todo''] (Some [CHR 0xC9]) None None"
    by (simp_all add: nul_free_def has_nul_def jsonb_castable_def example_todo_def)
  have "list_todos [example_todo 1 ''Buy milk'' [''home''] ''todo'',
               example_todo 2 ''Buy bread'' [''work''] ''done'']
       (Some ''buy'') (Some ''home'') None 100
     = Inr [example_todo 1 ''Buy milk'' [''home''] ''todo'']"
    using list_todos_filters [OF _ _ n(1) f(1), of 100]
    by (simp add: text_filter_def tag_filter_def status_filter_def same_letter_def
        capitals_def smalls_def example_todo_def)
  moreover have "list_todos [example_todo 1 (CHR 0xE9 # ''cole'') [] ''todo'']
       (Some [CHR 0xC9]) None None 100
     = Inr [example_todo 1 (CHR 0xE9 # ''cole'') [] ''todo'']"
    using list_todos_filters [OF _ _ n(2) f(2), of 100]
    by (simp add: text_filter_def tag_filter_def status_filter_def same_letter_def
        capitals_def smalls_def example_todo_def)
  ultimately show ?thesis by simp
qed

text \<open>
  A text filter with a wildcard is not a substring match: \<^verbatim>\<open>q=_\<close> selects a title that
  has no underscore.
\<close>

lemma list_todos_wildcard:
  "list_todos [example_todo 1 ''Buy milk'' [''home''] ''todo''] (Some ''_'') None None 100
     = Inr [example_todo 1 ''Buy milk'' [''home''] ''todo'']
   \<and> \<not> occurs_in ''_'' ''Buy milk''"
  by (simp add: list_todos_def where_q_def where_tag_def where_status_def ilike_def lower_def
      to_lower_def has_nul_def same_letter_def capitals_def smalls_def example_todo_def)

text \<open>
  C10: a list request that gives \<^verbatim>\<open>q\<close>, \<^verbatim>\<open>tag\<close> or \<^verbatim>\<open>status\<close> as the empty string
  returns what the same request returns without that parameter.
\<close>

theorem empty_filter_is_no_filter:
  "GET_todos store (Some []) tag st limit = GET_todos store None tag st limit
   \<and> GET_todos store q (Some []) st limit = GET_todos store q None st limit
   \<and> GET_todos store q tag (Some []) limit = GET_todos store q tag None limit"
proof -
  have "where_q (Some []) = where_q None"
    and "where_tag (Some []) = where_tag None"
    and "where_status (Some []) = where_status None"
    and "has_nul (Some []) = has_nul None"
    by (simp_all add: where_q_def where_tag_def where_status_def has_nul_def fun_eq_iff)
  then have "list_todos store (Some []) tag st n = list_todos store None tag st n"
    and "list_todos store q (Some []) st n = list_todos store q None st n"
    and "list_todos store q tag (Some []) n = list_todos store q tag None n" for n
    by (simp_all add: list_todos_def)
  then show ?thesis
    by (simp add: GET_todos_def split: sum.split)
qed

text \<open>C10 on a table of one row, with all three filters empty.\<close>

theorem empty_filter_is_no_filter_witness:
  "GET_todos [example_todo 1 ''Buy milk'' [''home''] ''todo''] (Some '''') (Some '''') (Some '''') None
     = Inr [example_todo 1 ''Buy milk'' [''home''] ''todo'']"
proof -
  have "GET_todos [example_todo 1 ''Buy milk'' [''home''] ''todo''] None None None None
     = Inr [example_todo 1 ''Buy milk'' [''home''] ''todo'']"
    by (simp add: GET_todos_def Query_limit_def list_todos_def where_q_def where_tag_def
        where_status_def has_nul_def)
  then show ?thesis
    using empty_filter_is_no_filter [of "[example_todo 1 ''Buy milk'' [''home''] ''todo'']"
        "Some ''''" "Some ''''" None "Some ''''"]
      empty_filter_is_no_filter [of "[example_todo 1 ''Buy milk'' [''home''] ''todo'']"
        None "Some ''''" None None]
      empty_filter_is_no_filter [of "[example_todo 1 ''Buy milk'' [''home''] ''todo'']"
        None None None None]
    by simp
qed

section \<open>Properties of create and get\<close>

lemma validate_TodoCreate_Inr:
  "validate_TodoCreate b = Inr item \<Longrightarrow>
     b_title b = Value (c_title item)
     \<and> c_description item = optional None (b_description b)
     \<and> c_due_at item = optional None (b_due_at b)
     \<and> c_estimated_minutes item = optional None (b_estimated_minutes b)
     \<and> c_priority item = optional (Some 3) (b_priority b)
     \<and> c_tags item = optional None (b_tags b)"
  by (auto simp: validate_TodoCreate_def split: field.splits if_splits)

lemma has_nul_optional: "text_ok f \<Longrightarrow> \<not> has_nul (optional None f)"
  by (cases f) (simp_all add: text_ok_def has_nul_def)

lemma int4_optional: "int4_ok f \<Longrightarrow> int4 d \<Longrightarrow> int4 (optional d f)"
  by (cases f) (simp_all add: int4_ok_def int4_def)

text \<open>The row that \<open>create_todo\<close> inserts for a validated payload.\<close>

lemma inserted_row:
  "column_defaults (new_Todo item new_id now) =
     \<lparr>id' = new_id,
      title = Some (c_title item),
      description = c_description item,
      due_at = c_due_at item,
      estimated_minutes = c_estimated_minutes item,
      status = Some ''todo'',
      priority = (case c_priority item of None \<Rightarrow> Some 3 | Some p \<Rightarrow> Some p),
      tags = c_tags item,
      created_at = now,
      updated_at = None\<rparr>"
  by (simp add: column_defaults_def new_Todo_def)

lemma inserted_row_accepted:
  assumes "validate_TodoCreate body = Inr item" and "storable_body body"
  shows "refused (column_defaults (new_Todo item new_id now)) = None"
proof -
  note v = validate_TodoCreate_Inr [OF assms(1)]
  have s: "text_ok (b_title body)" "text_ok (b_description body)"
    "int4_ok (b_estimated_minutes body)" "int4_ok (b_priority body)"
    using assms(2) by (simp_all add: storable_body_def)
  have "\<not> has_nul (Some (c_title item))"
    using s(1) v by (simp add: text_ok_def has_nul_def)
  moreover have "\<not> has_nul (c_description item)"
    using s(2) v by (simp add: has_nul_optional)
  moreover have "int4 (optional None (b_estimated_minutes body))"
    using s(3) by (rule int4_optional) (simp add: int4_def)
  then have "int4 (c_estimated_minutes item)"
    using v by simp
  moreover have "int4 (optional (Some 3) (b_priority body))"
    using s(4) by (rule int4_optional) (simp add: int4_def)
  then have "int4 (c_priority item)"
    using v by simp
  ultimately show ?thesis
    by (auto simp: inserted_row refused_def has_nul_def int4_def split: option.splits)
qed

lemma create_todo_fresh:
  assumes "new_id \<notin> id' ` set store"
    and "refused (column_defaults (new_Todo item new_id now)) = None"
  shows "create_todo store item new_id now
           = (store @ [column_defaults (new_Todo item new_id now)],
              Inr (column_defaults (new_Todo item new_id now)))"
proof -
  let ?r = "column_defaults (new_Todo item new_id now)"
  have i: "id' ?r = new_id" by (simp add: inserted_row)
  then have "insert_row store (new_Todo item new_id now) = Inr (store @ [?r])"
    using assms by (simp add: insert_row_def Let_def)
  moreover have "session_refresh (store @ [?r]) (new_Todo item new_id now) = Inr ?r"
    using assms(1) i by (simp add: session_refresh_def new_Todo_def session_get_append_fresh)
  ultimately show ?thesis by (simp add: create_todo_def Let_def)
qed

text \<open>
  A valid payload whose title has a NUL character: the driver refuses the INSERT and
  nothing is created.
\<close>

lemma create_todo_nul:
  "POST_todos [] (no_keys\<lparr>b_title := Value [CHR ''a'', CHR 0x00]\<rparr>) 1 42 = ([], Inl ValueError)"
  by (simp add: POST_todos_def validate_TodoCreate_def create_todo_def insert_row_def
      column_defaults_def refused_def has_nul_def new_Todo_def Let_def no_keys_def)

text \<open>
  C2, as stated, fails: a create request whose title is the empty string is accepted, and
  the row with the empty title is in the table afterwards.
\<close>

theorem empty_title_counterexample:
  "POST_todos [] (no_keys\<lparr>b_title := Value ''''\<rparr>) 1 42
     = ([(example_todo 1 '''' [] ''todo'')\<lparr>tags := None, created_at := 42\<rparr>],
        Inr ((example_todo 1 '''' [] ''todo'')\<lparr>tags := None, created_at := 42\<rparr>))"
  by (simp add: POST_todos_def validate_TodoCreate_def create_todo_def insert_row_def
      session_refresh_def session_get_def column_defaults_def refused_def has_nul_def int4_def
      new_Todo_def Let_def no_keys_def example_todo_def)

text \<open>
  C2, amended: a create request fails with a validation error (status 422, a client
  error) and leaves the table as it was if the title is absent or null; a request whose
  title is the empty string, whose other fields are valid and are taken by the database
  (no NUL character in a text, no integer outside 32 bits) and whose new identifier is
  not in the table is accepted, and the record with the empty title is persisted: it is
  what fetching the returned identifier yields.
\<close>

theorem title_required:
  "(b_title body = Absent \<or> b_title body = Null \<longrightarrow>
      POST_todos store body new_id now = (store, Inl RequestValidationError))
   \<and> status_code RequestValidationError = 422
   \<and> (b_title body = Value [] \<and> ge_ok 0 (b_estimated_minutes body)
        \<and> ge_ok 1 (b_priority body) \<and> le_ok 5 (b_priority body)
        \<and> storable_body body \<and> new_id \<notin> id' ` set store \<longrightarrow>
      (\<exists>store' todo. POST_todos store body new_id now = (store', Inr todo)
         \<and> get_todo store' (id' todo) = Inr todo
         \<and> title todo = Some []))"
proof -
  have a: "POST_todos store body new_id now = (store, Inl RequestValidationError)"
    if "b_title body = Absent \<or> b_title body = Null"
    using that by (auto simp: POST_todos_def validate_TodoCreate_def)
  have b: "\<exists>store' todo. POST_todos store body new_id now = (store', Inr todo)
         \<and> get_todo store' (id' todo) = Inr todo
         \<and> title todo = Some []"
    if t: "b_title body = Value []"
      and c: "ge_ok 0 (b_estimated_minutes body) \<and> ge_ok 1 (b_priority body)
        \<and> le_ok 5 (b_priority body)"
      and s: "storable_body body" and f: "new_id \<notin> id' ` set store"
  proof -
    obtain item where v: "validate_TodoCreate body = Inr item"
      using t c by (simp add: validate_TodoCreate_def)
    let ?r = "column_defaults (new_Todo item new_id now)"
    have "refused ?r = None" using v s by (rule inserted_row_accepted)
    with f have "create_todo store item new_id now = (store @ [?r], Inr ?r)"
      by (rule create_todo_fresh)
    then have "POST_todos store body new_id now = (store @ [?r], Inr ?r)"
      using v by (simp add: POST_todos_def)
    moreover have "id' ?r = new_id" by (simp add: inserted_row)
    then have "get_todo (store @ [?r]) (id' ?r) = Inr ?r"
      using f by (simp add: get_todo_def session_get_append_fresh)
    moreover have "title ?r = Some []"
      using validate_TodoCreate_Inr [OF v] t by (simp add: inserted_row)
    ultimately show ?thesis by blast
  qed
  from a b show ?thesis by simp
qed

text \<open>C2, amended, on a body without keys and on a body whose only key is an empty title.\<close>

theorem title_required_witness:
  "POST_todos [example_todo 1 ''a'' [] ''todo''] no_keys 2 42
     = ([example_todo 1 ''a'' [] ''todo''], Inl RequestValidationError)
   \<and> (\<exists>store' todo.
         POST_todos [example_todo 1 ''a'' [] ''todo''] (no_keys\<lparr>b_title := Value ''''\<rparr>) 2 42
           = (store', Inr todo)
         \<and> get_todo store' (id' todo) = Inr todo
         \<and> title todo = Some [])"
  using title_required [where body = no_keys and store = "[example_todo 1 ''a'' [] ''todo'']"
        and new_id = 2 and now = 42]
    title_required [where body = "no_keys\<lparr>b_title := Value ''''\<rparr>"
        and store = "[example_todo 1 ''a'' [] ''todo'']" and new_id = 2 and now = 42]
  by (simp add: no_keys_def example_todo_def storable_body_def text_ok_def tags_ok_def
      int4_ok_def)

text \<open>
  C6, as stated, fails. The payload with \<^verbatim>\<open>"estimated_minutes": 2147483648\<close> is valid,
  but the value does not fit the 32-bit column: nothing is created. And for the valid
  payload with \<^verbatim>\<open>"priority": null\<close> the created and fetched record has priority 3, the
  default of the column, not the null the caller supplied.
\<close>

theorem create_then_get_counterexample:
  "validate_TodoCreate (no_keys\<lparr>b_title := Value ''Buy milk'',
       b_estimated_minutes := Value 2147483648\<rparr>) \<noteq> Inl RequestValidationError
   \<and> POST_todos [] (no_keys\<lparr>b_title := Value ''Buy milk'',
       b_estimated_minutes := Value 2147483648\<rparr>) 1 42 = ([], Inl DataError)
   \<and> validate_TodoCreate (no_keys\<lparr>b_title := Value ''Buy milk'', b_priority := Null\<rparr>)
       \<noteq> Inl RequestValidationError
   \<and> POST_todos [] (no_keys\<lparr>b_title := Value ''Buy milk'', b_priority := Null\<rparr>) 1 42
       = ([(example_todo 1 ''Buy milk'' [] ''todo'')\<lparr>tags := None, created_at := 42\<rparr>],
          Inr ((example_todo 1 ''Buy milk'' [] ''todo'')\<lparr>tags := None, created_at := 42\<rparr>))
   \<and> priority ((example_todo 1 ''Buy milk'' [] ''todo'')\<lparr>tags := None, created_at := 42\<rparr>)
       = Some 3"
  by (simp add: POST_todos_def validate_TodoCreate_def create_todo_def insert_row_def
      session_refresh_def session_get_def column_defaults_def refused_def has_nul_def int4_def
      new_Todo_def Let_def no_keys_def example_todo_def)

text \<open>
  C6, amended: for every valid create payload that the database takes (no NUL character
  in a text, no integer outside 32 bits), with an identifier from \<^verbatim>\<open>uuid4()\<close> that is not
  in the table, creating an item and then fetching it by the returned identifier yields
  the created record; every field that the caller supplied with a value has that value,
  a priority supplied as null is the default 3, \<^verbatim>\<open>created_at\<close> is the time of the
  creation and \<^verbatim>\<open>updated_at\<close> is absent.
\<close>

theorem create_then_get:
  assumes "validate_TodoCreate body = Inr item" and "storable_body body"
    and "new_id \<notin> id' ` set store"
  shows "\<exists>store' todo.
           POST_todos store body new_id now = (store', Inr todo)
           \<and> get_todo store' (id' todo) = Inr todo
           \<and> (\<forall>v. b_title body = Value v \<longrightarrow> title todo = Some v)
           \<and> (\<forall>v. b_description body = Value v \<longrightarrow> description todo = Some v)
           \<and> (\<forall>v. b_due_at body = Value v \<longrightarrow> due_at todo = Some v)
           \<and> (\<forall>v. b_estimated_minutes body = Value v \<longrightarrow> estimated_minutes todo = Some v)
           \<and> (\<forall>v. b_priority body = Value v \<longrightarrow> priority todo = Some v)
           \<and> (b_priority body = Null \<longrightarrow> priority todo = Some 3)
           \<and> (\<forall>v. b_tags body = Value v \<longrightarrow> tags todo = Some v)
           \<and> created_at todo = now
           \<and> updated_at todo = None"
proof -
  let ?todo = "column_defaults (new_Todo item new_id now)"
  have "refused ?todo = None" using assms(1,2) by (rule inserted_row_accepted)
  with assms(3) have "create_todo store item new_id now = (store @ [?todo], Inr ?todo)"
    by (rule create_todo_fresh)
  then have post: "POST_todos store body new_id now = (store @ [?todo], Inr ?todo)"
    using assms(1) by (simp add: POST_todos_def)
  have "id' ?todo = new_id" by (simp add: inserted_row)
  then have get: "get_todo (store @ [?todo]) (id' ?todo) = Inr ?todo"
    using assms(3) by (simp add: get_todo_def session_get_append_fresh)
  have fields: "b_title body = Value (c_title item)"
    "c_description item = optional None (b_description body)"
    "c_due_at item = optional None (b_due_at body)"
    "c_estimated_minutes item = optional None (b_estimated_minutes body)"
    "c_priority item = optional (Some 3) (b_priority body)"
    "c_tags item = optional None (b_tags body)"
    using validate_TodoCreate_Inr [OF assms(1)] by simp_all
  have supplied: "\<forall>v. b_title body = Value v \<longrightarrow> title ?todo = Some v"
    "\<forall>v. b_description body = Value v \<longrightarrow> description ?todo = Some v"
    "\<forall>v. b_due_at body = Value v \<longrightarrow> due_at ?todo = Some v"
    "\<forall>v. b_estimated_minutes body = Value v \<longrightarrow> estimated_minutes ?todo = Some v"
    "\<forall>v. b_priority body = Value v \<longrightarrow> priority ?todo = Some v"
    "b_priority body = Null \<longrightarrow> priority ?todo = Some 3"
    "\<forall>v. b_tags body = Value v \<longrightarrow> tags ?todo = Some v"
    "created_at ?todo = now" "updated_at ?todo = None"
    using fields by (simp_all add: inserted_row)
  show ?thesis
    by (intro exI conjI) (rule post get supplied)+
qed

text \<open>
  C6, amended, on a body with a title, a due date, an estimate, a tag and a null
  priority.
\<close>

theorem create_then_get_witness:
  "\<exists>store' todo.
     POST_todos [example_todo 1 ''a'' [] ''todo''] example_body 2 42 = (store', Inr todo)
     \<and> get_todo store' (id' todo) = Inr todo
     \<and> title todo = Some ''Buy milk''
     \<and> due_at todo = Some 1700000000
     \<and> estimated_minutes todo = Some 15
     \<and> priority todo = Some 3
     \<and> tags todo = Some [''home'']
     \<and> created_at todo = 42
     \<and> updated_at todo = None"
proof -
  have v: "validate_TodoCreate example_body = Inr \<lparr>c_title = ''Buy milk'', c_description = None,
      c_due_at = Some 1700000000, c_estimated_minutes = Some 15, c_priority = None,
      c_tags = Some [''home'']\<rparr>"
    by (simp add: validate_TodoCreate_def example_body_def)
  have s: "storable_body example_body"
    by (simp add: storable_body_def text_ok_def tags_ok_def int4_ok_def example_body_def)
  have f: "(2::uuid) \<notin> id' ` set [example_todo 1 ''a'' [] ''todo'']"
    by (simp add: example_todo_def)
  show ?thesis
    using create_then_get [OF v s f, of 42] by (simp add: example_body_def)
qed

section \<open>Properties of update\<close>

lemma merged_setattr: "merged f old (setattr f old)"
  by (cases f) (simp_all add: merged_def)

lemma setattrs_simps:
  "id' (setattrs p t) = id' t"
  "created_at (setattrs p t) = created_at t"
  "updated_at (setattrs p t) = updated_at t"
  "title (setattrs p t) = setattr (u_title p) (title t)"
  "description (setattrs p t) = setattr (u_description p) (description t)"
  "due_at (setattrs p t) = setattr (u_due_at p) (due_at t)"
  "estimated_minutes (setattrs p t) = setattr (u_estimated_minutes p) (estimated_minutes t)"
  "status (setattrs p t) = setattr (u_status p) (status t)"
  "priority (setattrs p t) = setattr (u_priority p) (priority t)"
  "tags (setattrs p t) = setattr (u_tags p) (tags t)"
  by (simp_all add: setattrs_def)

lemma has_nul_setattr: "text_ok f \<Longrightarrow> \<not> has_nul old \<Longrightarrow> \<not> has_nul (setattr f old)"
  by (cases f) (simp_all add: text_ok_def has_nul_def)

lemma int4_setattr: "int4_ok f \<Longrightarrow> int4 old \<Longrightarrow> int4 (setattr f old)"
  by (cases f) (simp_all add: int4_ok_def int4_def)

lemma refused_None:
  "refused r = None \<longleftrightarrow>
     \<not> has_nul (title r) \<and> \<not> has_nul (description r) \<and> \<not> has_nul (status r)
     \<and> int4 (estimated_minutes r) \<and> int4 (priority r) \<and> title r \<noteq> None"
  by (auto simp: refused_def)

text \<open>The engine takes the merged row of a row it holds and a payload it can store.\<close>

lemma merged_row_accepted:
  assumes "refused todo = None" and "u_title patch \<noteq> Null" and "storable_patch patch"
  shows "refused ((setattrs patch todo)\<lparr>updated_at := Some now\<rparr>) = None"
proof -
  have old: "\<not> has_nul (title todo)" "\<not> has_nul (description todo)" "\<not> has_nul (status todo)"
    "int4 (estimated_minutes todo)" "int4 (priority todo)" "title todo \<noteq> None"
    using assms(1) by (simp_all add: refused_None)
  have p: "text_ok (u_title patch)" "text_ok (u_description patch)" "text_ok (u_status patch)"
    "int4_ok (u_estimated_minutes patch)" "int4_ok (u_priority patch)"
    using assms(3) by (simp_all add: storable_patch_def)
  have "setattr (u_title patch) (title todo) \<noteq> None"
    using assms(2) old(6) by (cases "u_title patch") simp_all
  then show ?thesis
    using old p
    by (simp add: refused_None setattrs_simps has_nul_setattr int4_setattr)
qed

lemma update_todo_found:
  assumes "session_get store i = Some t"
    and "refused ((setattrs p t)\<lparr>updated_at := Some now\<rparr>) = None"
  shows "update_todo store i p now =
           (filter (\<lambda>r. id' r \<noteq> i) store @ [(setattrs p t)\<lparr>updated_at := Some now\<rparr>],
            Inr ((setattrs p t)\<lparr>updated_at := Some now\<rparr>))"
proof -
  let ?t = "(setattrs p t)\<lparr>updated_at := Some now\<rparr>"
  have i: "id' ?t = i" using assms(1) by (simp add: session_get_Some setattrs_simps)
  then have "update_row store ?t = Inr (filter (\<lambda>r. id' r \<noteq> i) store @ [?t])"
    using assms(2) by (simp add: update_row_def)
  moreover have "session_refresh (filter (\<lambda>r. id' r \<noteq> i) store @ [?t]) ?t = Inr ?t"
    using i session_get_moved [of ?t store i] by (simp add: session_refresh_def)
  ultimately show ?thesis
    using assms(1) by (simp add: update_todo_def Let_def)
qed

text \<open>
  A payload with \<^verbatim>\<open>"title": null\<close> on an existing record: the commit is refused and the
  table is as it was.
\<close>

lemma update_todo_title_null:
  assumes "session_get store i = Some t" and "u_title p = Null"
  shows "\<exists>e. update_todo store i p now = (store, Inl e)"
proof -
  have "title ((setattrs p t)\<lparr>updated_at := Some now\<rparr>) = None"
    using assms(2) by (simp add: setattrs_simps)
  then have "refused ((setattrs p t)\<lparr>updated_at := Some now\<rparr>) \<noteq> None"
    by (simp add: refused_None)
  then obtain e where "update_row store ((setattrs p t)\<lparr>updated_at := Some now\<rparr>) = Inl e"
    by (auto simp: update_row_def)
  with assms(1) show ?thesis by (simp add: update_todo_def Let_def)
qed

lemma update_todo_commit:
  assumes "valid_table store" and "session_get store item_id = Some todo"
    and "u_title patch \<noteq> Null" and "storable_patch patch"
  shows "\<exists>store'.
           update_todo store item_id patch now
             = (store', Inr ((setattrs patch todo)\<lparr>updated_at := Some now\<rparr>))
           \<and> get_todo store' item_id = Inr ((setattrs patch todo)\<lparr>updated_at := Some now\<rparr>)
           \<and> (\<forall>j. j \<noteq> item_id \<longrightarrow> get_todo store' j = get_todo store j)"
proof -
  let ?t = "(setattrs patch todo)\<lparr>updated_at := Some now\<rparr>"
  let ?s = "filter (\<lambda>r. id' r \<noteq> item_id) store @ [?t]"
  have mem: "todo \<in> set store" and idt: "id' todo = item_id"
    using assms(2) by (simp_all add: session_get_Some)
  then have "refused todo = None"
    using assms(1) by (simp add: valid_table_refused)
  then have "refused ?t = None"
    using assms(3,4) by (rule merged_row_accepted)
  with assms(2) have upd: "update_todo store item_id patch now = (?s, Inr ?t)"
    by (rule update_todo_found)
  have idt': "id' ?t = item_id" using idt by (simp add: setattrs_simps)
  have get: "get_todo ?s item_id = Inr ?t"
    using idt' session_get_moved [of ?t store item_id] by (simp add: get_todo_def)
  have other: "get_todo ?s j = get_todo store j" if "j \<noteq> item_id" for j
    using that idt' session_get_moved [of ?t store j] by (simp add: get_todo_def)
  from upd get other show ?thesis by blast
qed

text \<open>
  C3, as stated, fails: for the payload \<^verbatim>\<open>{"title": null, "status": "done"}\<close> on an
  existing record the update changes nothing, does not set \<^verbatim>\<open>updated_at\<close> and returns
  no record, but fails with a server error.
\<close>

theorem update_todo_counterexample:
  "update_todo [example_todo 1 ''Buy milk'' [''home''] ''todo''] 1
       (no_fields\<lparr>u_title := Null, u_status := Value ''done''\<rparr>) 99
     = ([example_todo 1 ''Buy milk'' [''home''] ''todo''], Inl IntegrityError)
   \<and> status_code IntegrityError = 500"
  by (simp add: update_todo_def update_row_def refused_def has_nul_def int4_def session_get_def
      setattrs_def no_fields_def example_todo_def)

text \<open>
  C3, amended: for every existing record of a table and every partial-update payload
  that does not set the title to null and that the database takes (no NUL character in
  a text, no integer outside 32 bits), the update operation succeeds; it sets exactly
  the fields whose keys are present in the payload (to the payload's value, or to absent
  for null), leaves every other field (including \<^verbatim>\<open>id\<close> and \<^verbatim>\<open>created_at\<close>) at its
  prior value, sets \<^verbatim>\<open>updated_at\<close> to the current time, and returns the updated record,
  which is the record of that identifier afterwards; the other records are unchanged.
\<close>

theorem update_todo_merge:
  assumes "valid_table store" and "session_get store item_id = Some todo"
    and "u_title patch \<noteq> Null" and "storable_patch patch"
  shows "\<exists>store' todo'.
           update_todo store item_id patch now = (store', Inr todo')
           \<and> get_todo store' item_id = Inr todo'
           \<and> (\<forall>j. j \<noteq> item_id \<longrightarrow> get_todo store' j = get_todo store j)
           \<and> merged (u_title patch) (title todo) (title todo')
           \<and> merged (u_description patch) (description todo) (description todo')
           \<and> merged (u_due_at patch) (due_at todo) (due_at todo')
           \<and> merged (u_estimated_minutes patch) (estimated_minutes todo) (estimated_minutes todo')
           \<and> merged (u_status patch) (status todo) (status todo')
           \<and> merged (u_priority patch) (priority todo) (priority todo')
           \<and> merged (u_tags patch) (tags todo) (tags todo')
           \<and> id' todo' = id' todo
           \<and> created_at todo' = created_at todo
           \<and> updated_at todo' = Some now"
proof -
  let ?t = "(setattrs patch todo)\<lparr>updated_at := Some now\<rparr>"
  obtain store' where upd: "update_todo store item_id patch now = (store', Inr ?t)"
    and get: "get_todo store' item_id = Inr ?t"
    and other: "\<forall>j. j \<noteq> item_id \<longrightarrow> get_todo store' j = get_todo store j"
    using update_todo_commit [OF assms] by blast
  have fields: "merged (u_title patch) (title todo) (title ?t)"
    "merged (u_description patch) (description todo) (description ?t)"
    "merged (u_due_at patch) (due_at todo) (due_at ?t)"
    "merged (u_estimated_minutes patch) (estimated_minutes todo) (estimated_minutes ?t)"
    "merged (u_status patch) (status todo) (status ?t)"
    "merged (u_priority patch) (priority todo) (priority ?t)"
    "merged (u_tags patch) (tags todo) (tags ?t)"
    "id' ?t = id' todo" "created_at ?t = created_at todo" "updated_at ?t = Some now"
    by (simp_all add: setattrs_simps merged_setattr)
  show ?thesis
    by (intro exI conjI) (rule upd get other fields)+
qed

text \<open>
  C3, amended, on the example of the specification: updating only \<^verbatim>\<open>status\<close> (and
  clearing \<^verbatim>\<open>priority\<close>) leaves \<^verbatim>\<open>title\<close> and \<^verbatim>\<open>tags\<close> as they were.
\<close>

theorem update_todo_merge_witness:
  "\<exists>store' todo'.
     update_todo [example_todo 1 ''Buy milk'' [''home''] ''todo''] 1
         (no_fields\<lparr>u_status := Value ''done'', u_priority := Null\<rparr>) 99 = (store', Inr todo')
     \<and> get_todo store' 1 = Inr todo'
     \<and> title todo' = Some ''Buy milk''
     \<and> status todo' = Some ''done''
     \<and> priority todo' = None
     \<and> tags todo' = Some [''home'']
     \<and> id' todo' = 1
     \<and> created_at todo' = 0
     \<and> updated_at todo' = Some 99"
proof -
  have n: "valid_table [example_todo 1 ''Buy milk'' [''home''] ''todo'']"
    by (simp add: valid_table_def refused_def has_nul_def int4_def example_todo_def)
  have g: "session_get [example_todo 1 ''Buy milk'' [''home''] ''todo''] 1
             = Some (example_todo 1 ''Buy milk'' [''home''] ''todo'')"
    by (simp add: session_get_def example_todo_def)
  have t: "u_title (no_fields\<lparr>u_status := Value ''done'', u_priority := Null\<rparr>) \<noteq> Null"
    by (simp add: no_fields_def)
  have s: "storable_patch (no_fields\<lparr>u_status := Value ''done'', u_priority := Null\<rparr>)"
    by (simp add: storable_patch_def text_ok_def tags_ok_def int4_ok_def no_fields_def)
  show ?thesis
    using update_todo_merge [OF n g t s, of 99]
    by (simp add: merged_def no_fields_def example_todo_def) blast
qed

text \<open>
  C4, as stated, fails for the field \<^verbatim>\<open>title\<close>: the payload \<^verbatim>\<open>{"title": null}\<close> does
  not clear the title of an existing record; the request fails and the record keeps its
  title.
\<close>

theorem explicit_null_counterexample:
  "PATCH_todos [example_todo 1 ''Buy milk'' [''home''] ''todo''] 1 (no_fields\<lparr>u_title := Null\<rparr>) 99
     = ([example_todo 1 ''Buy milk'' [''home''] ''todo''], Inl IntegrityError)
   \<and> get_todo [example_todo 1 ''Buy milk'' [''home''] ''todo''] 1
       = Inr (example_todo 1 ''Buy milk'' [''home''] ''todo'')
   \<and> title (example_todo 1 ''Buy milk'' [''home''] ''todo'') = Some ''Buy milk''"
  by (simp add: PATCH_todos_def validate_TodoUpdate_def update_todo_def update_row_def
      refused_def has_nul_def int4_def get_todo_def session_get_def setattrs_def no_fields_def
      example_todo_def)

text \<open>
  C4, amended: for every existing record of a table and every valid update payload, a
  payload that sets the title to null fails and leaves the table as it was (the title
  cannot be cleared); a payload that does not, and that the database takes (no NUL
  character in a text, no integer outside 32 bits), succeeds, clears every field other
  than the title that it supplies with an explicit null, and leaves unchanged every
  field (the title too) whose key it omits.
\<close>

theorem explicit_null_clears:
  assumes "valid_table store" and "session_get store item_id = Some todo"
    and "validate_TodoUpdate body = Inr patch"
  shows "(u_title body = Null \<longrightarrow>
            (\<exists>e. PATCH_todos store item_id body now = (store, Inl e)))
         \<and> (u_title body \<noteq> Null \<and> storable_patch body \<longrightarrow>
            (\<exists>store' todo'.
               PATCH_todos store item_id body now = (store', Inr todo')
               \<and> get_todo store' item_id = Inr todo'
               \<and> (u_title body = Absent \<longrightarrow> title todo' = title todo)
               \<and> (u_description body = Null \<longrightarrow> description todo' = None)
               \<and> (u_description body = Absent \<longrightarrow> description todo' = description todo)
               \<and> (u_due_at body = Null \<longrightarrow> due_at todo' = None)
               \<and> (u_due_at body = Absent \<longrightarrow> due_at todo' = due_at todo)
               \<and> (u_estimated_minutes body = Null \<longrightarrow> estimated_minutes todo' = None)
               \<and> (u_estimated_minutes body = Absent \<longrightarrow>
                    estimated_minutes todo' = estimated_minutes todo)
               \<and> (u_status body = Null \<longrightarrow> status todo' = None)
               \<and> (u_status body = Absent \<longrightarrow> status todo' = status todo)
               \<and> (u_priority body = Null \<longrightarrow> priority todo' = None)
               \<and> (u_priority body = Absent \<longrightarrow> priority todo' = priority todo)
               \<and> (u_tags body = Null \<longrightarrow> tags todo' = None)
               \<and> (u_tags body = Absent \<longrightarrow> tags todo' = tags todo)))"
proof -
  let ?t = "(setattrs body todo)\<lparr>updated_at := Some now\<rparr>"
  have pb: "patch = body"
    using assms(3) by (simp add: validate_TodoUpdate_def split: if_splits)
  then have route: "PATCH_todos store item_id body now = update_todo store item_id body now"
    using assms(3) by (simp add: PATCH_todos_def)
  have a: "\<exists>e. PATCH_todos store item_id body now = (store, Inl e)" if "u_title body = Null"
    using update_todo_title_null [OF assms(2) that] route by simp
  have b: "\<exists>store' todo'.
               PATCH_todos store item_id body now = (store', Inr todo')
               \<and> get_todo store' item_id = Inr todo'
               \<and> (u_title body = Absent \<longrightarrow> title todo' = title todo)
               \<and> (u_description body = Null \<longrightarrow> description todo' = None)
               \<and> (u_description body = Absent \<longrightarrow> description todo' = description todo)
               \<and> (u_due_at body = Null \<longrightarrow> due_at todo' = None)
               \<and> (u_due_at body = Absent \<longrightarrow> due_at todo' = due_at todo)
               \<and> (u_estimated_minutes body = Null \<longrightarrow> estimated_minutes todo' = None)
               \<and> (u_estimated_minutes body = Absent \<longrightarrow>
                    estimated_minutes todo' = estimated_minutes todo)
               \<and> (u_status body = Null \<longrightarrow> status todo' = None)
               \<and> (u_status body = Absent \<longrightarrow> status todo' = status todo)
               \<and> (u_priority body = Null \<longrightarrow> priority todo' = None)
               \<and> (u_priority body = Absent \<longrightarrow> priority todo' = priority todo)
               \<and> (u_tags body = Null \<longrightarrow> tags todo' = None)
               \<and> (u_tags body = Absent \<longrightarrow> tags todo' = tags todo)"
    if t: "u_title body \<noteq> Null" and s: "storable_patch body"
  proof -
    obtain store' where upd: "update_todo store item_id body now = (store', Inr ?t)"
      and get: "get_todo store' item_id = Inr ?t"
      using update_todo_commit [OF assms(1,2) t s] by blast
    have patch: "PATCH_todos store item_id body now = (store', Inr ?t)"
      using upd route by simp
    have fields: "u_title body = Absent \<longrightarrow> title ?t = title todo"
      "u_description body = Null \<longrightarrow> description ?t = None"
      "u_description body = Absent \<longrightarrow> description ?t = description todo"
      "u_due_at body = Null \<longrightarrow> due_at ?t = None"
      "u_due_at body = Absent \<longrightarrow> due_at ?t = due_at todo"
      "u_estimated_minutes body = Null \<longrightarrow> estimated_minutes ?t = None"
      "u_estimated_minutes body = Absent \<longrightarrow> estimated_minutes ?t = estimated_minutes todo"
      "u_status body = Null \<longrightarrow> status ?t = None"
      "u_status body = Absent \<longrightarrow> status ?t = status todo"
      "u_priority body = Null \<longrightarrow> priority ?t = None"
      "u_priority body = Absent \<longrightarrow> priority ?t = priority todo"
      "u_tags body = Null \<longrightarrow> tags ?t = None"
      "u_tags body = Absent \<longrightarrow> tags ?t = tags todo"
      by (simp_all add: setattrs_simps)
    show ?thesis
      by (intro exI conjI) (rule patch get fields)+
  qed
  show ?thesis
  proof (intro conjI impI)
    assume "u_title body = Null"
    then show "\<exists>e. PATCH_todos store item_id body now = (store, Inl e)" by (rule a)
  next
    assume "u_title body \<noteq> Null \<and> storable_patch body"
    then have "u_title body \<noteq> Null" and "storable_patch body" by simp_all
    then show "\<exists>store' todo'.
               PATCH_todos store item_id body now = (store', Inr todo')
               \<and> get_todo store' item_id = Inr todo'
               \<and> (u_title body = Absent \<longrightarrow> title todo' = title todo)
               \<and> (u_description body = Null \<longrightarrow> description todo' = None)
               \<and> (u_description body = Absent \<longrightarrow> description todo' = description todo)
               \<and> (u_due_at body = Null \<longrightarrow> due_at todo' = None)
               \<and> (u_due_at body = Absent \<longrightarrow> due_at todo' = due_at todo)
               \<and> (u_estimated_minutes body = Null \<longrightarrow> estimated_minutes todo' = None)
               \<and> (u_estimated_minutes body = Absent \<longrightarrow>
                    estimated_minutes todo' = estimated_minutes todo)
               \<and> (u_status body = Null \<longrightarrow> status todo' = None)
               \<and> (u_status body = Absent \<longrightarrow> status todo' = status todo)
               \<and> (u_priority body = Null \<longrightarrow> priority todo' = None)
               \<and> (u_priority body = Absent \<longrightarrow> priority todo' = priority todo)
               \<and> (u_tags body = Null \<longrightarrow> tags todo' = None)
               \<and> (u_tags body = Absent \<longrightarrow> tags todo' = tags todo)"
      by (rule b)
  qed
qed

text \<open>
  C4, amended, on a payload that clears \<^verbatim>\<open>tags\<close> and \<^verbatim>\<open>status\<close>, sets \<^verbatim>\<open>priority\<close> and
  omits the other keys, and on a payload that sets the title to null.
\<close>

theorem explicit_null_clears_witness:
  "(\<exists>store' todo'.
     PATCH_todos [example_todo 1 ''Buy milk'' [''home''] ''todo''] 1
         (no_fields\<lparr>u_tags := Null, u_status := Null, u_priority := Value 5\<rparr>) 99
       = (store', Inr todo')
     \<and> get_todo store' 1 = Inr todo'
     \<and> title todo' = Some ''Buy milk''
     \<and> description todo' = None
     \<and> status todo' = None
     \<and> tags todo' = None)
   \<and> (\<exists>e. PATCH_todos [example_todo 1 ''Buy milk'' [''home''] ''todo''] 1
         (no_fields\<lparr>u_title := Null\<rparr>) 99
       = ([example_todo 1 ''Buy milk'' [''home''] ''todo''], Inl e))"
proof -
  have n: "valid_table [example_todo 1 ''Buy milk'' [''home''] ''todo'']"
    by (simp add: valid_table_def refused_def has_nul_def int4_def example_todo_def)
  have g: "session_get [example_todo 1 ''Buy milk'' [''home''] ''todo''] 1
             = Some (example_todo 1 ''Buy milk'' [''home''] ''todo'')"
    by (simp add: session_get_def example_todo_def)
  have v: "validate_TodoUpdate (no_fields\<lparr>u_tags := Null, u_status := Null, u_priority := Value 5\<rparr>)
             = Inr (no_fields\<lparr>u_tags := Null, u_status := Null, u_priority := Value 5\<rparr>)"
    "validate_TodoUpdate (no_fields\<lparr>u_title := Null\<rparr>) = Inr (no_fields\<lparr>u_title := Null\<rparr>)"
    by (simp_all add: validate_TodoUpdate_def no_fields_def)
  have s: "storable_patch (no_fields\<lparr>u_tags := Null, u_status := Null, u_priority := Value 5\<rparr>)"
    by (simp add: storable_patch_def text_ok_def tags_ok_def int4_ok_def no_fields_def)
  have "\<exists>store' todo'.
     PATCH_todos [example_todo 1 ''Buy milk'' [''home''] ''todo''] 1
         (no_fields\<lparr>u_tags := Null, u_status := Null, u_priority := Value 5\<rparr>) 99
       = (store', Inr todo')
     \<and> get_todo store' 1 = Inr todo'
     \<and> title todo' = Some ''Buy milk''
     \<and> description todo' = None
     \<and> status todo' = None
     \<and> tags todo' = None"
    using explicit_null_clears [OF n g v(1), of 99] s
    by (simp add: no_fields_def example_todo_def) blast
  moreover have "\<exists>e. PATCH_todos [example_todo 1 ''Buy milk'' [''home''] ''todo''] 1
         (no_fields\<lparr>u_title := Null\<rparr>) 99
       = ([example_todo 1 ''Buy milk'' [''home''] ''todo''], Inl e)"
    using explicit_null_clears [OF n g v(2), of 99]
    by (simp add: no_fields_def)
  ultimately show ?thesis by (rule conjI)
qed

text \<open>
  A payload that sets \<^verbatim>\<open>estimated_minutes\<close> to a value outside 32 bits is valid, and the
  engine refuses the update.
\<close>

lemma update_todo_out_of_range:
  "PATCH_todos [example_todo 1 ''Buy milk'' [''home''] ''todo''] 1
       (no_fields\<lparr>u_estimated_minutes := Value 2147483648\<rparr>) 99
     = ([example_todo 1 ''Buy milk'' [''home''] ''todo''], Inl DataError)"
  by (simp add: PATCH_todos_def validate_TodoUpdate_def update_todo_def update_row_def
      refused_def has_nul_def int4_def session_get_def setattrs_def no_fields_def
      example_todo_def)

section \<open>Properties of a missing identifier\<close>

text \<open>
  C8: for every identifier that is not in the table, get, update and delete each fail
  with \<^verbatim>\<open>HTTPException(status_code=404)\<close> and leave the table as it was; and after a
  successful delete of an item, fetching it fails with 404 and deleting it again fails
  with 404.
\<close>

theorem missing_id_not_found:
  "(item_id \<notin> id' ` set store \<longrightarrow>
      get_todo store item_id = Inl (HTTPException 404)
      \<and> update_todo store item_id patch now = (store, Inl (HTTPException 404))
      \<and> delete_todo store item_id = (store, Inl (HTTPException 404)))
   \<and> (item_id \<in> id' ` set store \<longrightarrow>
      (\<exists>store'. delete_todo store item_id = (store', Inr ())
         \<and> get_todo store' item_id = Inl (HTTPException 404)
         \<and> delete_todo store' item_id = (store', Inl (HTTPException 404))))
   \<and> status_code (HTTPException 404) = 404"
proof -
  have a: "get_todo store item_id = Inl (HTTPException 404)
      \<and> update_todo store item_id patch now = (store, Inl (HTTPException 404))
      \<and> delete_todo store item_id = (store, Inl (HTTPException 404))"
    if "item_id \<notin> id' ` set store"
  proof -
    from that have "session_get store item_id = None" by (simp add: session_get_None)
    then show ?thesis by (simp add: get_todo_def update_todo_def delete_todo_def)
  qed
  have b: "\<exists>store'. delete_todo store item_id = (store', Inr ())
         \<and> get_todo store' item_id = Inl (HTTPException 404)
         \<and> delete_todo store' item_id = (store', Inl (HTTPException 404))"
    if "item_id \<in> id' ` set store"
  proof -
    from that obtain t where t: "session_get store item_id = Some t"
      using session_get_None [of store item_id] by (cases "session_get store item_id") auto
    then have "id' t = item_id" by (simp add: session_get_Some)
    then have "session_get (delete_row store t) item_id = None"
      using session_get_delete_row [of store t] by simp
    with t show ?thesis by (simp add: get_todo_def delete_todo_def)
  qed
  from a b show ?thesis by simp
qed

text \<open>C8 on a table of one row: the identifier 2 is missing, the identifier 1 is deleted.\<close>

theorem missing_id_not_found_witness:
  "get_todo [example_todo 1 ''a'' [] ''todo''] 2 = Inl (HTTPException 404)
   \<and> update_todo [example_todo 1 ''a'' [] ''todo''] 2 (no_fields\<lparr>u_status := Value ''done''\<rparr>) 7
       = ([example_todo 1 ''a'' [] ''todo''], Inl (HTTPException 404))
   \<and> delete_todo [example_todo 1 ''a'' [] ''todo''] 2
       = ([example_todo 1 ''a'' [] ''todo''], Inl (HTTPException 404))
   \<and> (\<exists>store'. delete_todo [example_todo 1 ''a'' [] ''todo''] 1 = (store', Inr ())
         \<and> get_todo store' 1 = Inl (HTTPException 404)
         \<and> delete_todo store' 1 = (store', Inl (HTTPException 404)))"
  using missing_id_not_found [of 2 "[example_todo 1 ''a'' [] ''todo'']"
      "no_fields\<lparr>u_status := Value ''done''\<rparr>" 7]
    missing_id_not_found [of 1 "[example_todo 1 ''a'' [] ''todo'']"]
  by (simp add: example_todo_def)

end
